theory Spec2Isabelle
  imports Main
begin

section \<open>Data model (src/src/types.ts)\<close>

text \<open>
  The three delivery modes and the role hint are the enum \<^verbatim>\<open>EventMode\<close> and the union
  type \<^verbatim>\<open>EventBusRole\<close>. An optional property of a TypeScript interface is an
  \<open>option\<close>: \<open>None\<close> is \<^verbatim>\<open>undefined\<close>. JavaScript numbers are modelled as
  integers (seconds, milliseconds and counts are whole numbers here).
\<close>

datatype EventMode = BROADCAST | UNICAST | ANYCAST

datatype EventBusRole = Publisher | Consumer | Both

record EventBusOptions =
  name :: "string option"
  redis :: string
  messageRetention :: "int option"
  streamTTL :: "int option"
  onlyNew :: "bool option"
  debug :: "bool option"
  maxMessageCount :: "int option"
  role :: "EventBusRole option"

text \<open>
  \<^verbatim>\<open>Required<EventBusOptions>\<close>, the options as the constructor stores them. The
  constructor spreads the given options and overrides six fields; \<^verbatim>\<open>role\<close> is copied as
  given, so it may still be undefined.
\<close>

record Options =
  opt_name :: string
  opt_redis :: string
  opt_messageRetention :: int
  opt_streamTTL :: int
  opt_onlyNew :: bool
  opt_debug :: bool
  opt_maxMessageCount :: int
  opt_role :: "EventBusRole option"

text \<open>\<^verbatim>\<open>EventMessage\<close>, what a caller hands to \<^verbatim>\<open>emit\<close>.\<close>

record 'd EventMessage =
  m_mode :: "EventMode option"
  m_target :: "string option"
  m_data :: "'d option"

text \<open>\<^verbatim>\<open>ReceivedEventMessage\<close>, the envelope that travels through the store.\<close>

record 'd ReceivedEventMessage =
  mode :: EventMode
  target :: "string option"
  event :: string
  data :: "'d option"
  timestamp :: int
  source :: string

section \<open>The stream reader (src/src/stream.ts)\<close>

text \<open>
  \<^verbatim>\<open>EventStreamOptions\<close> without the connection settings and the handler callback; the
  callback is a parameter of the loop below.
\<close>

record EventStreamOptions =
  es_stream :: string
  es_group :: string
  es_consumer :: string
  es_batchSize :: nat
  es_onlyNew :: bool
  es_messageRetention :: int

record EventStream =
  es_options :: EventStreamOptions
  es_loop :: bool
  es_loopPromise :: bool

definition new_EventStream :: "EventStreamOptions \<Rightarrow> EventStream" where
  "new_EventStream opts = \<lparr>es_options = opts, es_loop = False, es_loopPromise = False\<rparr>"

definition getStreamKey :: "EventStream \<Rightarrow> string" where
  "getStreamKey s = es_stream (es_options s)"

definition getGroupKey :: "EventStream \<Rightarrow> string" where
  "getGroupKey s = es_group (es_options s)"

text \<open>
  The store is seen through the commands the code sends to it and the replies it gets. A
  rejected promise of the client is an \<open>error\<close>; a reply is \<open>Inl\<close> the error or
  \<open>Inr\<close> the value. \<open>XGROUP_CREATE key group id True\<close> is the command with
  \<^verbatim>\<open>MKSTREAM\<close>; \<open>XREADGROUP group consumer count block key\<close> reads with id \<^verbatim>\<open>>\<close>.
\<close>

datatype error = StoreError string

type_synonym 'a reply = "error + 'a"

text \<open>
  A value of a store reply: a bulk string or an integer. \<open>js_index xs i\<close> is the
  JavaScript \<^verbatim>\<open>xs[i]\<close>, undefined (\<open>None\<close>) out of range.
\<close>

datatype rv = Str string | Num int

definition js_index :: "'a list \<Rightarrow> nat \<Rightarrow> 'a option" where
  "js_index xs i = (if i < length xs then Some (xs ! i) else None)"

datatype cmd =
    CONNECT
  | QUIT
  | XGROUP_CREATE string string string bool
  | EXPIRE string int
  | XREADGROUP string string nat nat string
  | XACK string string string
  | XADD string string string string
  | XTRIM string int
  | XINFO_CONSUMERS string string
  | XGROUP_DELCONSUMER string string "rv option"

text \<open>
  \<^verbatim>\<open>EventStream.init\<close>. A failed connect rejects. The promises of XGROUP CREATE and of
  EXPIRE both end in \<^verbatim>\<open>.catch(() => 0)\<close>, so their replies \<open>created\<close> and \<open>expired\<close>
  are dropped. \<^verbatim>\<open>startLoop()\<close> runs up to its first await before \<^verbatim>\<open>init\<close> returns, so
  the loop flag is set on return.
\<close>

definition stream_init ::
    "unit reply \<Rightarrow> unit reply \<Rightarrow> unit reply \<Rightarrow> EventStream
      \<Rightarrow> cmd list \<times> EventStream \<times> unit reply" where
  "stream_init connected created expired s =
     (case connected of
        Inl e \<Rightarrow> ([CONNECT], s, Inl e)
      | Inr _ \<Rightarrow>
          (let startId = (if es_onlyNew (es_options s) then ''$'' else ''0'')
           in ([CONNECT,
                XGROUP_CREATE (es_stream (es_options s)) (es_group (es_options s)) startId True,
                EXPIRE (es_stream (es_options s)) 60],
               s\<lparr>es_loop := True, es_loopPromise := True\<rparr>,
               Inr ())))"

text \<open>
  \<^verbatim>\<open>EventStream.close\<close>: clear the loop flag, wait for the loop, quit the connection.
\<close>

definition stream_close :: "unit reply \<Rightarrow> EventStream \<Rightarrow> cmd list \<times> EventStream \<times> unit reply" where
  "stream_close quitted s = ([QUIT], s\<lparr>es_loop := False\<rparr>, quitted)"

text \<open>
  The reply of XREADGROUP is null or an array with one element per stream,
  \<^verbatim>\<open>[key, [[id, [field, value, ...]], ...]]\<close>: a key and the records read from it.
\<close>

type_synonym entry = "string \<times> string list"

type_synonym stream_reply = "string \<times> entry list"

datatype outcome = Returned | Threw

text \<open>
  What the loop does, in order: a command sent to the store, a call of the handler
  callback with a decoded envelope, a line written by \<^verbatim>\<open>console.error\<close>.
\<close>

datatype 'e action = Store cmd | Dispatch 'e | LogError

text \<open>\<^verbatim>\<open>const [_key, value] = messageValue\<close>\<close>

definition second_value :: "string list \<Rightarrow> string option" where
  "second_value messageValue = js_index messageValue 1"

text \<open>
  The try block of the loop: \<^verbatim>\<open>await this.options.handler(EJSON.parse(value))\<close>.
  \<open>parse\<close> is \<^verbatim>\<open>EJSON.parse\<close>, \<open>None\<close> where it throws; it throws on an argument that
  is not a string. The handler callback works on a state \<open>'s\<close> of its owner.
\<close>

definition try_handler ::
    "(string \<Rightarrow> 'e option) \<Rightarrow> ('e \<Rightarrow> 's \<Rightarrow> outcome \<times> 's) \<Rightarrow> string option \<Rightarrow> 's
      \<Rightarrow> 'e action list \<times> 's" where
  "try_handler parse h v s =
     (case (case v of None \<Rightarrow> None | Some str \<Rightarrow> parse str) of
        None \<Rightarrow> ([LogError], s)
      | Some m \<Rightarrow>
          (case h m s of
             (Returned, s') \<Rightarrow> ([Dispatch m], s')
           | (Threw, s') \<Rightarrow> ([Dispatch m, LogError], s')))"

text \<open>
  \<^verbatim>\<open>for (const message of messages)\<close>: the loop variable ranges over the elements of the
  reply, one per stream; the body reads \<^verbatim>\<open>message[1][0]\<close>, the first record of that
  stream, dispatches it and acknowledges its id.
\<close>

fun for_messages ::
    "(string \<Rightarrow> 'e option) \<Rightarrow> ('e \<Rightarrow> 's \<Rightarrow> outcome \<times> 's) \<Rightarrow> EventStreamOptions
      \<Rightarrow> stream_reply list \<Rightarrow> 's \<Rightarrow> 'e action list \<times> 's" where
  "for_messages parse h opts [] s = ([], s)"
| "for_messages parse h opts (message # rest) s =
     (case snd message of
        [] \<Rightarrow> for_messages parse h opts rest s
      | first # _ \<Rightarrow>
          (let messageId = fst first;
               messageValue = snd first;
               (acts, s') = try_handler parse h (second_value messageValue) s;
               ack = Store (XACK (es_stream opts) (es_group opts) messageId);
               (acts', s'') = for_messages parse h opts rest s'
           in (acts @ [ack] @ acts', s'')))"

text \<open>
  \<^verbatim>\<open>startLoop\<close>, run over the replies that XREADGROUP gives in the iterations made while
  the loop flag is set. The replies are those of commands that the store answered: an
  XREADGROUP or an XACK that the client rejects would end the loop, and such a run is
  the one over the replies received before it.
\<close>

fun startLoop ::
    "(string \<Rightarrow> 'e option) \<Rightarrow> ('e \<Rightarrow> 's \<Rightarrow> outcome \<times> 's) \<Rightarrow> EventStreamOptions
      \<Rightarrow> stream_reply list option list \<Rightarrow> 's \<Rightarrow> 'e action list \<times> 's" where
  "startLoop parse h opts [] s = ([], s)"
| "startLoop parse h opts (messages # later) s =
     (let read = Store (XREADGROUP (es_group opts) (es_consumer opts) (es_batchSize opts)
                          1000 (es_stream opts));
          (acts, s') = (case messages of
                          None \<Rightarrow> ([], s)
                        | Some ms \<Rightarrow> for_messages parse h opts ms s);
          (acts', s'') = startLoop parse h opts later s'
      in (read # acts @ acts', s''))"


section \<open>The bus (src/src/eventbus.ts)\<close>

subsection \<open>Constructor\<close>

text \<open>
  A subscriber is a JavaScript function, compared by reference. \<open>Fn n\<close> is the caller's
  function number \<open>n\<close>; \<open>OnceWrapper k ty n\<close> is the closure that the \<open>k\<close>-th call of
  \<^verbatim>\<open>once\<close> built around the caller's function \<open>n\<close> for topic \<open>ty\<close>. The serial number \<open>k\<close>
  gives every closure its own identity, as every evaluation of the arrow function does.
\<close>

datatype handler = Fn nat | OnceWrapper nat string nat

text \<open>
  \<^verbatim>\<open>Map<string, Set<EventHandler>>\<close>: a map from topics to the handlers of the set in
  insertion order, which is the order a JavaScript \<^verbatim>\<open>Set\<close> iterates in.
\<close>

record EventBus =
  instanceId :: string
  keyPrefix :: string
  streams :: "EventMode \<Rightarrow> EventStream"
  options :: Options
  handlers :: "string \<rightharpoonup> handler list"
  maintenanceTimer :: bool
  closures :: nat

text \<open>
  \<^verbatim>\<open>a || b\<close> on an optional string and on an optional number: the left operand when it is
  truthy (a non-empty string, a number other than zero), else the right one.
  \<^verbatim>\<open>a ?? b\<close>: the left operand unless it is undefined.
\<close>

definition or_string :: "string option \<Rightarrow> string \<Rightarrow> string" where
  "or_string a b = (case a of None \<Rightarrow> b | Some s \<Rightarrow> if s = [] then b else s)"

definition or_number :: "int option \<Rightarrow> int \<Rightarrow> int" where
  "or_number a b = (case a of None \<Rightarrow> b | Some n \<Rightarrow> if n = 0 then b else n)"

definition nullish :: "'a option \<Rightarrow> 'a \<Rightarrow> 'a" where
  "nullish a b = (case a of None \<Rightarrow> b | Some v \<Rightarrow> v)"

definition resolve_options :: "EventBusOptions \<Rightarrow> Options" where
  "resolve_options given =
     \<lparr>opt_name = or_string (name given) ''default'',
      opt_redis = redis given,
      opt_messageRetention = or_number (messageRetention given) (5 * 60 * 1000),
      opt_streamTTL = max (nullish (streamTTL given) (60 * 60)) (5 * 60),
      opt_onlyNew = nullish (onlyNew given) False,
      opt_debug = nullish (debug given) False,
      opt_maxMessageCount = nullish (maxMessageCount given) 5000,
      opt_role = role given\<rparr>"

text \<open>
  The constructor. The instance id is \<^verbatim>\<open>crypto.randomUUID()\<close> without its dashes; it is
  an input of the model. The three readers are built in the order anycast, broadcast,
  unicast, which is the order \<^verbatim>\<open>Object.values(this.streams)\<close> enumerates them in.
\<close>

definition mk_stream ::
    "Options \<Rightarrow> string \<Rightarrow> string \<Rightarrow> string \<Rightarrow> nat \<Rightarrow> EventStream" where
  "mk_stream opts skey gkey cons n =
     new_EventStream
       \<lparr>es_stream = skey, es_group = gkey, es_consumer = cons, es_batchSize = n,
        es_onlyNew = opt_onlyNew opts, es_messageRetention = opt_messageRetention opts\<rparr>"

definition new_EventBus :: "EventBusOptions \<Rightarrow> string \<Rightarrow> EventBus" where
  "new_EventBus given uuid =
     (let opts = resolve_options given;
          prefix = ''eventbus:'' @ opt_name opts @ '':''
      in \<lparr>instanceId = uuid,
          keyPrefix = prefix,
          streams = (\<lambda>m. case m of
              ANYCAST \<Rightarrow> mk_stream opts (prefix @ ''anycast'') (prefix @ ''group'') uuid 1
            | BROADCAST \<Rightarrow> mk_stream opts (prefix @ ''broadcast'') (prefix @ uuid) uuid 1
            | UNICAST \<Rightarrow> mk_stream opts (prefix @ ''unicast:'' @ uuid) (prefix @ uuid) uuid 10),
          options = opts,
          handlers = Map.empty,
          maintenanceTimer = False,
          closures = 0\<rparr>)"

definition stream_values :: "EventMode list" where
  "stream_values = [ANYCAST, BROADCAST, UNICAST]"

definition no_options :: EventBusOptions where
  "no_options =
     \<lparr>name = None, redis = ''localhost'', messageRetention = None, streamTTL = None,
      onlyNew = None, debug = None, maxMessageCount = None, role = None\<rparr>"

subsection \<open>Subscriber table: on, off, once\<close>

text \<open>\<^verbatim>\<open>Set.add\<close> and \<^verbatim>\<open>Set.delete\<close> on the handlers of one topic.\<close>

definition set_add :: "handler \<Rightarrow> handler list \<Rightarrow> handler list" where
  "set_add h hs = (if h \<in> set hs then hs else hs @ [h])"

definition set_delete :: "handler \<Rightarrow> handler list \<Rightarrow> handler list" where
  "set_delete h hs = removeAll h hs"

text \<open>
  \<^verbatim>\<open>on\<close>: create the topic's set when the table has none, then add the handler to the
  set the table holds. The lookup after the insertion cannot miss (the source asserts so
  with \<^verbatim>\<open>!\<close>).
\<close>

definition on :: "string \<Rightarrow> handler \<Rightarrow> EventBus \<Rightarrow> EventBus" where
  "on ty h bus =
     (let table = (if handlers bus ty = None then (handlers bus)(ty \<mapsto> []) else handlers bus)
      in case table ty of
           None \<Rightarrow> bus\<lparr>handlers := table\<rparr>
         | Some hs \<Rightarrow> bus\<lparr>handlers := table(ty \<mapsto> set_add h hs)\<rparr>)"

text \<open>
  \<^verbatim>\<open>off\<close>: delete the handler from the topic's set, and delete the topic when the set
  has become empty. An unknown topic changes nothing.
\<close>

definition off :: "string \<Rightarrow> handler \<Rightarrow> EventBus \<Rightarrow> EventBus" where
  "off ty h bus =
     (case handlers bus ty of
        None \<Rightarrow> bus
      | Some hs \<Rightarrow>
          (let hs' = set_delete h hs
           in if length hs' = 0 then bus\<lparr>handlers := (handlers bus)(ty := None)\<rparr>
              else bus\<lparr>handlers := (handlers bus)(ty \<mapsto> hs')\<rparr>))"

text \<open>
  \<^verbatim>\<open>once\<close>: build a new closure around the caller's function and subscribe it. The
  counter \<open>closures\<close> numbers the closures built so far.
\<close>

definition once :: "string \<Rightarrow> nat \<Rightarrow> EventBus \<Rightarrow> EventBus" where
  "once ty n bus =
     on ty (OnceWrapper (closures bus) ty n) (bus\<lparr>closures := Suc (closures bus)\<rparr>)"

subsection \<open>Dispatch: handleMessage\<close>

text \<open>
  A caller's function is known by what a call of it does: \<open>run n msg\<close> is \<open>Returned\<close>
  when function \<open>n\<close> returns or resolves on \<open>msg\<close>, and \<open>Threw\<close> when it throws or
  rejects. Callers' functions are taken not to subscribe or unsubscribe while they run, so
  that iterating the set as it was when the loop began is what the live iteration of the
  JavaScript \<^verbatim>\<open>Set\<close> does. The closure of \<^verbatim>\<open>once\<close> awaits the caller's function and, in
  its \<^verbatim>\<open>finally\<close> block, unsubscribes itself; the outcome is that of the caller's function.
\<close>

fun user_fn :: "handler \<Rightarrow> nat" where
  "user_fn (Fn n) = n"
| "user_fn (OnceWrapper k ty n) = n"

fun call_handler ::
    "(nat \<Rightarrow> 'm \<Rightarrow> outcome) \<Rightarrow> handler \<Rightarrow> 'm \<Rightarrow> EventBus \<Rightarrow> outcome \<times> EventBus" where
  "call_handler run (Fn n) msg bus = (run n msg, bus)"
| "call_handler run (OnceWrapper k ty n) msg bus =
     (run n msg, off ty (OnceWrapper k ty n) bus)"

text \<open>
  \<^verbatim>\<open>for (const handler of handlers) { await handler(message) }\<close>. The state is the bus
  together with the list of the handlers called so far, in call order. Nothing catches
  inside the loop: a handler that throws ends it. The line that \<^verbatim>\<open>handleMessage\<close> prints
  when \<^verbatim>\<open>debug\<close> is set has no effect on the bus and is left out.
\<close>

fun for_handlers ::
    "(nat \<Rightarrow> 'm \<Rightarrow> outcome) \<Rightarrow> handler list \<Rightarrow> 'm \<Rightarrow> EventBus \<times> handler list
      \<Rightarrow> outcome \<times> EventBus \<times> handler list" where
  "for_handlers run [] msg st = (Returned, st)"
| "for_handlers run (h # hs) msg (bus, called) =
     (case call_handler run h msg bus of
        (Threw, bus') \<Rightarrow> (Threw, bus', called @ [h])
      | (Returned, bus') \<Rightarrow> for_handlers run hs msg (bus', called @ [h]))"

definition handleMessage ::
    "(nat \<Rightarrow> 'd ReceivedEventMessage \<Rightarrow> outcome) \<Rightarrow> 'd ReceivedEventMessage
      \<Rightarrow> EventBus \<times> handler list \<Rightarrow> outcome \<times> EventBus \<times> handler list" where
  "handleMessage run message st =
     (case handlers (fst st) (event message) of
        None \<Rightarrow> (Returned, st)
      | Some hs \<Rightarrow> for_handlers run hs message st)"

text \<open>
  A reader of the bus: \<^verbatim>\<open>startLoop\<close> of the stream of mode \<open>m\<close> with the bound
  \<^verbatim>\<open>handleMessage\<close> as its callback.
\<close>

definition reader ::
    "(string \<Rightarrow> 'd ReceivedEventMessage option) \<Rightarrow> (nat \<Rightarrow> 'd ReceivedEventMessage \<Rightarrow> outcome)
      \<Rightarrow> EventMode \<Rightarrow> stream_reply list option list \<Rightarrow> EventBus \<times> handler list
      \<Rightarrow> 'd ReceivedEventMessage action list \<times> EventBus \<times> handler list" where
  "reader parse run m replies st =
     startLoop parse (handleMessage run) (es_options (streams (fst st) m)) replies st"

subsection \<open>Publish: emit\<close>

text \<open>
  \<open>truthy\<close> is the test \<^verbatim>\<open>message.target ? ... : ...\<close> on an optional string;
  \<open>js_string\<close> is what string concatenation makes of an optional string.
\<close>

definition truthy :: "string option \<Rightarrow> bool" where
  "truthy t = (case t of None \<Rightarrow> False | Some s \<Rightarrow> s \<noteq> [])"

definition js_string :: "string option \<Rightarrow> string" where
  "js_string t = (case t of None \<Rightarrow> ''undefined'' | Some s \<Rightarrow> s)"

definition emit_mode :: "'d EventMessage \<Rightarrow> EventMode" where
  "emit_mode message = (if truthy (m_target message) then UNICAST
                        else nullish (m_mode message) BROADCAST)"

text \<open>
  The envelope: the message's own properties (\<^verbatim>\<open>...message\<close>), then \<^verbatim>\<open>mode\<close>,
  \<^verbatim>\<open>event\<close>, \<^verbatim>\<open>timestamp\<close>, \<^verbatim>\<open>source\<close> and \<^verbatim>\<open>data\<close>. \<open>now\<close> is \<^verbatim>\<open>Date.now()\<close>.
\<close>

definition emit_payload ::
    "EventBus \<Rightarrow> int \<Rightarrow> string \<Rightarrow> 'd EventMessage \<Rightarrow> 'd ReceivedEventMessage" where
  "emit_payload bus now ev message =
     \<lparr>mode = emit_mode message, target = m_target message, event = ev,
      data = m_data message, timestamp = now, source = instanceId bus\<rparr>"

definition emit_streamKey :: "EventBus \<Rightarrow> 'd EventMessage \<Rightarrow> string" where
  "emit_streamKey bus message =
     (if emit_mode message = UNICAST
      then keyPrefix bus @ ''unicast:'' @ js_string (m_target message)
      else getStreamKey (streams bus (emit_mode message)))"

text \<open>
  \<^verbatim>\<open>emit\<close>: one XADD on the control connection; the result is the reply of the store,
  the record id or the error. \<open>stringify\<close> is \<^verbatim>\<open>EJSON.stringify\<close>.
\<close>

definition emit ::
    "('d ReceivedEventMessage \<Rightarrow> string) \<Rightarrow> int \<Rightarrow> string reply \<Rightarrow> EventBus \<Rightarrow> string
      \<Rightarrow> 'd EventMessage \<Rightarrow> cmd list \<times> string reply" where
  "emit stringify now added bus ev message =
     ([XADD (emit_streamKey bus message) ''*'' ''message''
         (stringify (emit_payload bus now ev message))],
      added)"

subsection \<open>Maintenance: maintainOnce\<close>

text \<open>
  One element of the reply of XINFO CONSUMERS is a flat array
  \<^verbatim>\<open>["name", name, "pending", count, "idle", idle, ...]\<close>; the callback destructures
  positions 1 and 5. The store reports \<^verbatim>\<open>idle\<close> as an integer number of milliseconds;
  \<^verbatim>\<open>streamTTL\<close> is a number of seconds. \<^verbatim>\<open>idle > this.options.streamTTL\<close> compares the
  two numbers as they are; it is false when \<^verbatim>\<open>idle\<close> is undefined, and a string does not
  occur in that position.
\<close>

definition idle_gt :: "rv option \<Rightarrow> int \<Rightarrow> bool" where
  "idle_gt idle ttl = (case idle of Some (Num n) \<Rightarrow> n > ttl | _ \<Rightarrow> False)"

definition prune_consumers :: "EventBus \<Rightarrow> EventStream \<Rightarrow> rv list list \<Rightarrow> cmd list" where
  "prune_consumers bus stream consumers =
     concat (map (\<lambda>c. if idle_gt (js_index c 5) (opt_streamTTL (options bus))
                       then [XGROUP_DELCONSUMER (getStreamKey stream) (getGroupKey stream)
                               (js_index c 1)]
                       else [])
                 consumers)"

text \<open>
  The body of the loop of \<^verbatim>\<open>maintainOnce\<close> for one stream, up to the pruning of
  consumers: trim, renew the TTL, list the consumers, delete the idle ones. The
  destruction of stale groups of the broadcast stream, which follows it behind a timer,
  is not part of this model.
\<close>

definition maintain_stream :: "EventBus \<Rightarrow> EventStream \<Rightarrow> rv list list \<Rightarrow> cmd list" where
  "maintain_stream bus stream consumers =
     [XTRIM (getStreamKey stream) (opt_maxMessageCount (options bus)),
      EXPIRE (getStreamKey stream) (opt_streamTTL (options bus)),
      XINFO_CONSUMERS (getStreamKey stream) (getGroupKey stream)]
     @ prune_consumers bus stream consumers"

definition maintainOnce :: "EventBus \<Rightarrow> (EventMode \<Rightarrow> rv list list) \<Rightarrow> cmd list" where
  "maintainOnce bus consumers =
     concat (map (\<lambda>m. maintain_stream bus (streams bus m) (consumers m)) stream_values)"

subsection \<open>Lifecycle: init and close\<close>

text \<open>
  Every connection has its own command log: the control connection of the bus and the
  connection of each reader. A log lists the commands sent on that connection in the
  order they are sent; nothing is said about the order of commands on different
  connections, which \<^verbatim>\<open>Promise.all\<close> leaves to the timing of the replies.
\<close>

datatype conn = Control | Reader EventMode

text \<open>
  The outcome of \<^verbatim>\<open>Promise.all\<close>: success when every promise succeeds, else one of
  the rejections. Which one depends on timing; the model reports the first in the order
  of the readers.
\<close>

definition first_error :: "unit reply list \<Rightarrow> unit reply" where
  "first_error rs = (case filter isl rs of [] \<Rightarrow> Inr () | r # _ \<Rightarrow> r)"

text \<open>
  \<^verbatim>\<open>init\<close>: connect the control connection; run \<^verbatim>\<open>init\<close> of every stream in
  \<^verbatim>\<open>Object.values(this.streams)\<close> (\<^verbatim>\<open>Promise.all\<close>: all are started, and one rejection
  rejects the whole); start the maintenance timer. No option is read on the way:
  \<^verbatim>\<open>role\<close> appears nowhere in the method. The log of the control connection holds the
  connect; the maintenance run that the timer's start kicks off sends the commands of
  \<^verbatim>\<open>maintainOnce\<close>, which are not repeated here.
\<close>

definition init ::
    "unit reply \<Rightarrow> (EventMode \<Rightarrow> unit reply) \<Rightarrow> (EventMode \<Rightarrow> unit reply)
      \<Rightarrow> (EventMode \<Rightarrow> unit reply) \<Rightarrow> EventBus
      \<Rightarrow> (conn \<Rightarrow> cmd list) \<times> EventBus \<times> unit reply" where
  "init connected sconnected created expired bus =
     (case connected of
        Inl e \<Rightarrow> ((\<lambda>c. case c of Control \<Rightarrow> [CONNECT] | Reader m \<Rightarrow> []), bus, Inl e)
      | Inr _ \<Rightarrow>
          (let started = (\<lambda>m. stream_init (sconnected m) (created m) (expired m) (streams bus m));
               log = (\<lambda>c. case c of
                         Control \<Rightarrow> [CONNECT]
                       | Reader m \<Rightarrow> if m \<in> set stream_values then fst (started m) else []);
               bus' = bus\<lparr>streams := (\<lambda>m. if m \<in> set stream_values
                                             then fst (snd (started m)) else streams bus m)\<rparr>
           in case first_error (map (\<lambda>m. snd (snd (started m))) stream_values) of
                Inl e \<Rightarrow> (log, bus', Inl e)
              | Inr _ \<Rightarrow> (log, bus'\<lparr>maintenanceTimer := True\<rparr>, Inr ())))"

text \<open>
  \<^verbatim>\<open>close\<close>: quit the control connection, clear the interval timer, close every stream.
  The method sets no flag on the bus and touches neither the subscriber table nor the
  options.
\<close>

definition close ::
    "unit reply \<Rightarrow> (EventMode \<Rightarrow> unit reply) \<Rightarrow> EventBus
      \<Rightarrow> (conn \<Rightarrow> cmd list) \<times> EventBus \<times> unit reply" where
  "close quitted squitted bus =
     (case quitted of
        Inl e \<Rightarrow> ((\<lambda>c. case c of Control \<Rightarrow> [QUIT] | Reader m \<Rightarrow> []), bus, Inl e)
      | Inr _ \<Rightarrow>
          (let closed = (\<lambda>m. stream_close (squitted m) (streams bus m));
               log = (\<lambda>c. case c of
                         Control \<Rightarrow> [QUIT]
                       | Reader m \<Rightarrow> if m \<in> set stream_values then fst (closed m) else [])
           in (log,
               bus\<lparr>maintenanceTimer := False,
                   streams := (\<lambda>m. if m \<in> set stream_values
                                   then fst (snd (closed m)) else streams bus m)\<rparr>,
               first_error (map (\<lambda>m. snd (snd (closed m))) stream_values))))"

subsection \<open>Sequences of calls\<close>

text \<open>
  The calls that touch the subscriber table: the three public methods, and the delivery
  of an envelope to \<^verbatim>\<open>handleMessage\<close>, during which the closures of \<^verbatim>\<open>once\<close> call
  \<^verbatim>\<open>off\<close>.
\<close>

datatype 'd call =
    On string handler
  | Off string handler
  | Once string nat
  | Deliver "'d ReceivedEventMessage"

fun do_call ::
    "(nat \<Rightarrow> 'd ReceivedEventMessage \<Rightarrow> outcome) \<Rightarrow> 'd call \<Rightarrow> EventBus \<Rightarrow> EventBus" where
  "do_call run (On ty h) bus = on ty h bus"
| "do_call run (Off ty h) bus = off ty h bus"
| "do_call run (Once ty n) bus = once ty n bus"
| "do_call run (Deliver message) bus = fst (snd (handleMessage run message (bus, [])))"

fun do_calls ::
    "(nat \<Rightarrow> 'd ReceivedEventMessage \<Rightarrow> outcome) \<Rightarrow> 'd call list \<Rightarrow> EventBus \<Rightarrow> EventBus" where
  "do_calls run [] bus = bus"
| "do_calls run (c # cs) bus = do_calls run cs (do_call run c bus)"

definition table_ok :: "(string \<rightharpoonup> handler list) \<Rightarrow> bool" where
  "table_ok table = (\<forall>ty. table ty \<noteq> Some [])"

subsection \<open>Concrete instances\<close>

text \<open>
  An instance with the default options and one whose role is \<^verbatim>\<open>publisher\<close>; the id has
  the shape of a UUID without dashes. \<open>all_ok\<close> is a store that accepts every command.
\<close>

definition uuid0 :: string where
  "uuid0 = ''0123456789abcdef0123456789abcdef''"

definition bus0 :: EventBus where
  "bus0 = new_EventBus no_options uuid0"

definition publisher0 :: EventBus where
  "publisher0 = new_EventBus (no_options\<lparr>role := Some Publisher\<rparr>) uuid0"

definition all_ok :: "EventMode \<Rightarrow> unit reply" where
  "all_ok m = Inr ()"

text \<open>
  Two envelopes on topic \<^verbatim>\<open>e\<close> and a decoder that knows their encodings \<^verbatim>\<open>A\<close> and
  \<^verbatim>\<open>B\<close>; a caller's function 0 that throws, while every other one returns.
\<close>

definition envelope_a :: "nat ReceivedEventMessage" where
  "envelope_a = \<lparr>mode = UNICAST, target = Some uuid0, event = ''e'', data = Some 1,
                 timestamp = 1000, source = uuid0\<rparr>"

definition envelope_b :: "nat ReceivedEventMessage" where
  "envelope_b = \<lparr>mode = UNICAST, target = Some uuid0, event = ''e'', data = Some 2,
                 timestamp = 1001, source = uuid0\<rparr>"

definition parse_ab :: "string \<Rightarrow> nat ReceivedEventMessage option" where
  "parse_ab str = (if str = ''A'' then Some envelope_a
                   else if str = ''B'' then Some envelope_b else None)"

definition all_return :: "nat \<Rightarrow> nat ReceivedEventMessage \<Rightarrow> outcome" where
  "all_return n message = Returned"

definition zero_throws :: "nat \<Rightarrow> nat ReceivedEventMessage \<Rightarrow> outcome" where
  "zero_throws n message = (if n = 0 then Threw else Returned)"

text \<open>
  A message that asks for unicast without naming a target, the running instance
  \<open>running0\<close> (after \<^verbatim>\<open>init\<close>) and the closed one \<open>closed0\<close> (after \<^verbatim>\<open>close\<close>), and a
  consumer as XINFO CONSUMERS lists it, idle for 4000 milliseconds.
\<close>

definition unicast_no_target :: "nat EventMessage" where
  "unicast_no_target = \<lparr>m_mode = Some UNICAST, m_target = None, m_data = Some 0\<rparr>"

definition running0 :: EventBus where
  "running0 = fst (snd (init (Inr ()) all_ok all_ok all_ok bus0))"

definition closed0 :: EventBus where
  "closed0 = fst (snd (close (Inr ()) all_ok running0))"

definition consumer_idle_4s :: "rv list" where
  "consumer_idle_4s = [Str ''name'', Str ''c1'', Str ''pending'', Num 0, Str ''idle'', Num 4000]"

text \<open>
  A store in which every group exists already; the documented unicast call, with mode
  UNICAST and the target named; a bus with the callers' functions 0 and 1 subscribed to
  topic \<^verbatim>\<open>e\<close>, in that order; a message addressed to the instance \<^verbatim>\<open>ab\<close> and one with
  no property set.
\<close>

definition group_exists :: "EventMode \<Rightarrow> unit reply" where
  "group_exists m = Inl (StoreError ''BUSYGROUP Consumer Group name already exists'')"

definition unicast_to_self :: "nat EventMessage" where
  "unicast_to_self = \<lparr>m_mode = Some UNICAST, m_target = Some uuid0, m_data = Some 0\<rparr>"

definition two_handlers :: EventBus where
  "two_handlers = on ''e'' (Fn 1) (on ''e'' (Fn 0) bus0)"

definition to_ab :: "nat EventMessage" where
  "to_ab = \<lparr>m_mode = Some ANYCAST, m_target = Some ''ab'', m_data = Some 0\<rparr>"

definition plain_message :: "nat EventMessage" where
  "plain_message = \<lparr>m_mode = None, m_target = None, m_data = None\<rparr>"

section \<open>Properties\<close>

subsection \<open>Auxiliary facts\<close>

lemma bus0_fields:
  "instanceId bus0 = uuid0"
  "keyPrefix bus0 = ''eventbus:default:''"
  "handlers bus0 = Map.empty"
  "closures bus0 = 0"
  "opt_streamTTL (options bus0) = 3600"
  "es_options (streams bus0 UNICAST) =
     \<lparr>es_stream = ''eventbus:default:unicast:'' @ uuid0, es_group = ''eventbus:default:'' @ uuid0,
      es_consumer = uuid0, es_batchSize = 10, es_onlyNew = False, es_messageRetention = 300000\<rparr>"
  "es_options (streams bus0 ANYCAST) =
     \<lparr>es_stream = ''eventbus:default:anycast'', es_group = ''eventbus:default:group'',
      es_consumer = uuid0, es_batchSize = 1, es_onlyNew = False, es_messageRetention = 300000\<rparr>"
  "es_options (streams bus0 BROADCAST) =
     \<lparr>es_stream = ''eventbus:default:broadcast'', es_group = ''eventbus:default:'' @ uuid0,
      es_consumer = uuid0, es_batchSize = 1, es_onlyNew = False, es_messageRetention = 300000\<rparr>"
  by (simp_all add: bus0_def new_EventBus_def resolve_options_def no_options_def mk_stream_def
      new_EventStream_def or_string_def or_number_def nullish_def Let_def)

lemma two_handlers_fields:
  "handlers two_handlers ''e'' = Some [Fn 0, Fn 1]"
  "streams two_handlers = streams bus0"
  by (simp_all add: two_handlers_def on_def set_add_def Let_def bus0_fields)

lemma call_handler_outcome: "fst (call_handler run h msg bus) = run (user_fn h) msg"
  by (cases h) simp_all

lemma for_handlers_called:
  "snd (snd (for_handlers run hs msg (bus, called)))
     = called @ takeWhile (\<lambda>h. run (user_fn h) msg = Returned) hs
         @ take 1 (dropWhile (\<lambda>h. run (user_fn h) msg = Returned) hs)"
proof (induction hs arbitrary: bus called)
  case Nil
  then show ?case by simp
next
  case (Cons h hs)
  obtain oc bus' where c: "call_handler run h msg bus = (oc, bus')"
    by (cases "call_handler run h msg bus")
  then have oc: "oc = run (user_fn h) msg"
    using call_handler_outcome [of run h msg bus] by simp
  show ?case
  proof (cases oc)
    case Returned
    then show ?thesis using c oc Cons.IH [of bus' "called @ [h]"] by simp
  next
    case Threw
    then show ?thesis using c oc by simp
  qed
qed

lemma for_messages_acks_first:
  "Store (XACK (es_stream opts) (es_group opts) mid)
     \<in> set (fst (for_messages parse h opts ((key, (mid, mv) # others) # rest) s))"
  by (simp add: split_beta Let_def)

lemma table_ok_on: "table_ok (handlers bus) \<Longrightarrow> table_ok (handlers (on ty h bus))"
  by (auto simp: table_ok_def on_def set_add_def Let_def split: option.splits)

lemma table_ok_off: "table_ok (handlers bus) \<Longrightarrow> table_ok (handlers (off ty h bus))"
  by (auto simp: table_ok_def off_def Let_def split: option.splits)

lemma table_ok_once: "table_ok (handlers bus) \<Longrightarrow> table_ok (handlers (once ty n bus))"
  unfolding once_def by (rule table_ok_on) simp

lemma table_ok_call_handler:
  "table_ok (handlers bus) \<Longrightarrow> table_ok (handlers (snd (call_handler run h msg bus)))"
  by (cases h) (simp_all add: table_ok_off)

lemma table_ok_for_handlers:
  "table_ok (handlers bus) \<Longrightarrow>
   table_ok (handlers (fst (snd (for_handlers run hs msg (bus, called)))))"
proof (induction hs arbitrary: bus called)
  case Nil
  then show ?case by simp
next
  case (Cons h hs)
  obtain oc bus' where c: "call_handler run h msg bus = (oc, bus')"
    by (cases "call_handler run h msg bus")
  have ok: "table_ok (handlers bus')"
    using table_ok_call_handler [OF Cons.prems, of run h msg] c by simp
  show ?case
    using c ok Cons.IH [OF ok, of "called @ [h]"] by (cases oc) simp_all
qed

lemma table_ok_do_call: "table_ok (handlers bus) \<Longrightarrow> table_ok (handlers (do_call run c bus))"
  by (cases c)
    (simp_all add: table_ok_on table_ok_off table_ok_once handleMessage_def
      table_ok_for_handlers split: option.splits)

lemma table_ok_do_calls:
  "table_ok (handlers bus) \<Longrightarrow> table_ok (handlers (do_calls run cs bus))"
  by (induction cs arbitrary: bus) (simp_all add: table_ok_do_call)

lemma handlers_new_EventBus: "handlers (new_EventBus given uuid) = Map.empty"
  by (simp add: new_EventBus_def Let_def)

lemma closures_new_EventBus: "closures (new_EventBus given uuid) = 0"
  by (simp add: new_EventBus_def Let_def)

lemma stream_values_all: "m \<in> set stream_values"
  by (cases m) (simp_all add: stream_values_def)

lemma close_fields:
  "close quitted squitted bus = (log, bus', Inr ()) \<Longrightarrow>
   handlers bus' = handlers bus \<and> closures bus' = closures bus
   \<and> maintenanceTimer bus' = False \<and> (\<forall>m. es_loop (streams bus' m) = False)"
  by (cases quitted) (auto simp: close_def stream_close_def stream_values_all Let_def)

lemma on_handlers_cong:
  "handlers b1 = handlers b2 \<Longrightarrow> handlers (on ty h b1) = handlers (on ty h b2)"
  by (simp add: on_def Let_def split: option.splits)

lemma off_handlers_cong:
  "handlers b1 = handlers b2 \<Longrightarrow> handlers (off ty h b1) = handlers (off ty h b2)"
  by (simp add: off_def Let_def split: option.splits)

lemma once_handlers_cong:
  "handlers b1 = handlers b2 \<Longrightarrow> closures b1 = closures b2 \<Longrightarrow>
   handlers (once ty n b1) = handlers (once ty n b2)"
  by (simp add: once_def on_handlers_cong [of "b1\<lparr>closures := Suc (closures b2)\<rparr>"
        "b2\<lparr>closures := Suc (closures b2)\<rparr>"])

lemma on_adds: "\<exists>hs. handlers (on ty h bus) ty = Some hs \<and> h \<in> set hs"
  by (auto simp: on_def set_add_def Let_def split: option.splits)

lemma running0_fields:
  "handlers running0 = Map.empty"
  "closures running0 = 0"
  "maintenanceTimer running0 = True"
  by (simp_all add: running0_def init_def stream_init_def all_ok_def stream_values_def
      first_error_def Let_def bus0_fields)

lemma close_running0:
  "close (Inr ()) all_ok running0 = (fst (close (Inr ()) all_ok running0), closed0, Inr ())"
  by (simp add: closed0_def close_def stream_close_def all_ok_def stream_values_def
      first_error_def Let_def)

lemma closed0_fields: "handlers closed0 = Map.empty" "closures closed0 = 0"
  by (simp_all add: closed0_def close_def stream_close_def all_ok_def stream_values_def
      first_error_def Let_def running0_fields)

subsection \<open>The reader loop\<close>

text \<open>
  C1. Every record of a batch returned by XREADGROUP is dispatched and acknowledged.
  The unicast reader asks for ten records, and the loop body handles the first record
  of each stream of the reply only: on a reply that carries the records \<^verbatim>\<open>1-0\<close> and
  \<^verbatim>\<open>2-0\<close> of the unicast stream, the reader dispatches the first envelope and
  acknowledges \<^verbatim>\<open>1-0\<close>; the second envelope is neither dispatched nor acknowledged.
\<close>

theorem unicast_batch_first_record_only:
  "es_batchSize (es_options (streams bus0 UNICAST)) = 10
   \<and> fst (reader parse_ab all_return UNICAST
        [Some [(getStreamKey (streams bus0 UNICAST),
                [(''1-0'', [''message'', ''A'']), (''2-0'', [''message'', ''B''])])]]
        (bus0, []))
     = [Store (XREADGROUP (getGroupKey (streams bus0 UNICAST)) uuid0 10 1000
                 (getStreamKey (streams bus0 UNICAST))),
        Dispatch envelope_a,
        Store (XACK (getStreamKey (streams bus0 UNICAST)) (getGroupKey (streams bus0 UNICAST))
                 ''1-0'')]"
  by (simp add: reader_def bus0_fields getStreamKey_def getGroupKey_def try_handler_def
      second_value_def js_index_def parse_ab_def handleMessage_def)

text \<open>
  C2, as the code has it. The handlers of the topic are called in the order of the set up
  to and including the first one that throws; the handlers after it are not called for
  that record. The record is acknowledged whatever the handlers do.
\<close>

theorem handler_failure_ends_dispatch:
  "(handlers bus (event message) = Some hs \<longrightarrow>
      snd (snd (handleMessage run message (bus, [])))
        = takeWhile (\<lambda>h. run (user_fn h) message = Returned) hs
            @ take 1 (dropWhile (\<lambda>h. run (user_fn h) message = Returned) hs))
   \<and> Store (XACK (es_stream opts) (es_group opts) mid)
        \<in> set (fst (for_messages parse (handleMessage run) opts
                       ((key, (mid, mv) # others) # rest) (bus, [])))"
  using for_handlers_called [of run hs message bus "[]"]
    for_messages_acks_first [of opts mid parse "handleMessage run" key mv others rest "(bus, [])"]
  by (simp add: handleMessage_def)

theorem handler_failure_ends_dispatch_witness:
  "handlers two_handlers (event envelope_a) = Some [Fn 0, Fn 1]
   \<and> snd (snd (handleMessage zero_throws envelope_a (two_handlers, []))) = [Fn 0]
   \<and> Store (XACK (getStreamKey (streams bus0 UNICAST)) (getGroupKey (streams bus0 UNICAST))
               ''1-0'')
        \<in> set (fst (for_messages parse_ab (handleMessage zero_throws)
                       (es_options (streams bus0 UNICAST))
                       [(''k'', [(''1-0'', [''message'', ''A''])])] (two_handlers, [])))"
proof -
  have h: "handlers two_handlers (event envelope_a) = Some [Fn 0, Fn 1]"
    by (simp add: envelope_a_def two_handlers_fields)
  show ?thesis
    using h handler_failure_ends_dispatch [of two_handlers envelope_a "[Fn 0, Fn 1]" zero_throws
        "es_options (streams bus0 UNICAST)" "''1-0''" parse_ab "''k''" "[''message'', ''A'']"
        "[]" "[]"]
    by (simp add: zero_throws_def getStreamKey_def getGroupKey_def)
qed

text \<open>
  C2, as the claim states it, fails: with the functions 0 and 1 subscribed to the topic
  and function 0 throwing, function 1, which comes after it in the set, is not called.
\<close>

theorem later_handler_skipped_counterexample:
  "handlers two_handlers (event envelope_a) = Some [Fn 0, Fn 1]
   \<and> zero_throws 0 envelope_a = Threw
   \<and> snd (snd (handleMessage zero_throws envelope_a (two_handlers, []))) = [Fn 0]
   \<and> Fn 1 \<notin> set (snd (snd (handleMessage zero_throws envelope_a (two_handlers, []))))"
  by (simp add: handleMessage_def envelope_a_def two_handlers_fields zero_throws_def)

subsection \<open>Lifecycle\<close>

text \<open>
  C3. With role \<^verbatim>\<open>publisher\<close>, \<^verbatim>\<open>init\<close> starts no reader loop. The code never reads the
  role: on the instance built with role \<^verbatim>\<open>publisher\<close>, a successful \<^verbatim>\<open>init\<close> leaves the
  loop of each of the three readers running.
\<close>

theorem publisher_init_starts_readers:
  "opt_role (options publisher0) = Some Publisher
   \<and> snd (snd (init (Inr ()) all_ok all_ok all_ok publisher0)) = Inr ()
   \<and> es_loop (streams (fst (snd (init (Inr ()) all_ok all_ok all_ok publisher0))) ANYCAST)
   \<and> es_loop (streams (fst (snd (init (Inr ()) all_ok all_ok all_ok publisher0))) BROADCAST)
   \<and> es_loop (streams (fst (snd (init (Inr ()) all_ok all_ok all_ok publisher0))) UNICAST)"
  by (simp add: init_def stream_init_def all_ok_def stream_values_def first_error_def Let_def
      publisher0_def new_EventBus_def resolve_options_def no_options_def)

text \<open>
  C7, as the code has it. A completed \<^verbatim>\<open>close\<close> has stopped the maintenance timer and
  cleared the loop flag of every reader, and it leaves no mark on the bus that a later
  call could test: \<^verbatim>\<open>on\<close>, \<^verbatim>\<open>off\<close> and \<^verbatim>\<open>once\<close> change the subscriber table of the
  closed instance exactly as they change that of the running one, and a handler
  subscribed after \<^verbatim>\<open>close\<close> is in the table.
\<close>

theorem subscriptions_after_close:
  assumes "close quitted squitted bus = (log, bus', Inr ())"
  shows "maintenanceTimer bus' = False
   \<and> (\<forall>m. es_loop (streams bus' m) = False)
   \<and> handlers (on ty h bus') = handlers (on ty h bus)
   \<and> handlers (off ty h bus') = handlers (off ty h bus)
   \<and> handlers (once ty n bus') = handlers (once ty n bus)
   \<and> (\<exists>hs. handlers (on ty h bus') ty = Some hs \<and> h \<in> set hs)"
  using close_fields [OF assms] on_handlers_cong [of bus' bus ty h]
    off_handlers_cong [of bus' bus ty h] once_handlers_cong [of bus' bus ty n]
    on_adds [of ty h bus']
  by simp

theorem subscriptions_after_close_witness:
  "close (Inr ()) all_ok running0 = (fst (close (Inr ()) all_ok running0), closed0, Inr ())
   \<and> maintenanceTimer running0 = True
   \<and> maintenanceTimer closed0 = False
   \<and> es_loop (streams closed0 UNICAST) = False
   \<and> handlers (on ''e'' (Fn 0) closed0) = handlers (on ''e'' (Fn 0) running0)
   \<and> handlers (off ''e'' (Fn 0) closed0) = handlers (off ''e'' (Fn 0) running0)
   \<and> handlers (once ''e'' 0 closed0) = handlers (once ''e'' 0 running0)"
  using close_running0
    subscriptions_after_close [OF close_running0, of "''e''" "Fn 0" 0]
  by (simp add: running0_fields)

text \<open>
  C7, as the claim states it, fails: \<^verbatim>\<open>on\<close> after a completed \<^verbatim>\<open>close\<close> is not refused,
  it takes effect. The closed instance has no handler for topic \<^verbatim>\<open>e\<close>, and after
  \<^verbatim>\<open>on\<close> it has one.
\<close>

theorem on_after_close_counterexample:
  "snd (snd (close (Inr ()) all_ok running0)) = Inr ()
   \<and> fst (snd (close (Inr ()) all_ok running0)) = closed0
   \<and> handlers closed0 ''e'' = None
   \<and> handlers (on ''e'' (Fn 0) closed0) ''e'' = Some [Fn 0]"
proof -
  have completed: "snd (snd (close (Inr ()) all_ok running0)) = Inr ()"
    by (simp add: close_def stream_close_def all_ok_def stream_values_def first_error_def Let_def)
  have state: "fst (snd (close (Inr ()) all_ok running0)) = closed0"
    by (simp add: closed0_def)
  have subscribed: "handlers (on ''e'' (Fn 0) closed0) ''e'' = Some [Fn 0]"
    by (simp add: closed0_fields on_def set_add_def Let_def)
  show ?thesis
    using completed state subscribed by (simp add: closed0_fields)
qed

text \<open>
  C8. Once its connection is up, \<^verbatim>\<open>init\<close> of a reader sends XGROUP CREATE with
  MKSTREAM and the start id \<^verbatim>\<open>$\<close> when \<^verbatim>\<open>onlyNew\<close> is set and \<^verbatim>\<open>0\<close> otherwise, then
  EXPIRE with 60 seconds, and succeeds whatever the store answers to the two commands (a
  group that exists already makes XGROUP CREATE fail). The readers of a bus carry the
  resolved \<^verbatim>\<open>onlyNew\<close> option. When all connections come up, \<^verbatim>\<open>init\<close> of the bus
  succeeds whatever the answers to XGROUP CREATE and EXPIRE are, and on the connection
  of each of the three readers exactly these commands are sent: the connect, XGROUP
  CREATE on that reader's stream and group with MKSTREAM and that start id, and EXPIRE of
  that stream with 60 seconds.
\<close>

theorem stream_init_group_and_ttl:
  "stream_init (Inr ()) created expired s
     = ([CONNECT,
         XGROUP_CREATE (getStreamKey s) (getGroupKey s)
           (if es_onlyNew (es_options s) then ''$'' else ''0'') True,
         EXPIRE (getStreamKey s) 60],
        s\<lparr>es_loop := True, es_loopPromise := True\<rparr>, Inr ())
   \<and> es_onlyNew (es_options (streams (new_EventBus given uuid) m)) = (onlyNew given = Some True)
   \<and> snd (snd (init (Inr ()) all_ok created' expired' bus)) = Inr ()
   \<and> fst (init (Inr ()) all_ok created' expired' bus) (Reader m)
       = [CONNECT,
          XGROUP_CREATE (getStreamKey (streams bus m)) (getGroupKey (streams bus m))
            (if es_onlyNew (es_options (streams bus m)) then ''$'' else ''0'') True,
          EXPIRE (getStreamKey (streams bus m)) 60]"
  by (cases m)
    (auto simp: stream_init_def getStreamKey_def getGroupKey_def new_EventBus_def Let_def
      mk_stream_def new_EventStream_def resolve_options_def nullish_def init_def all_ok_def
      stream_values_def first_error_def split: option.splits)

theorem stream_init_group_and_ttl_witness:
  "fst (stream_init (Inr ()) (group_exists BROADCAST) (Inr ()) (streams bus0 BROADCAST))
     = [CONNECT,
        XGROUP_CREATE ''eventbus:default:broadcast'' (''eventbus:default:'' @ uuid0) ''0'' True,
        EXPIRE ''eventbus:default:broadcast'' 60]
   \<and> snd (snd (stream_init (Inr ()) (group_exists BROADCAST) (Inr ())
                  (streams bus0 BROADCAST))) = Inr ()
   \<and> es_onlyNew (es_options (streams (new_EventBus (no_options\<lparr>onlyNew := Some True\<rparr>) uuid0)
                                 UNICAST))
   \<and> snd (snd (init (Inr ()) all_ok group_exists all_ok bus0)) = Inr ()
   \<and> fst (init (Inr ()) all_ok group_exists all_ok bus0) (Reader UNICAST)
       = [CONNECT,
          XGROUP_CREATE (''eventbus:default:unicast:'' @ uuid0) (''eventbus:default:'' @ uuid0)
            ''0'' True,
          EXPIRE (''eventbus:default:unicast:'' @ uuid0) 60]"
  using stream_init_group_and_ttl [of "group_exists BROADCAST" "Inr ()"
      "streams bus0 BROADCAST" "no_options\<lparr>onlyNew := Some True\<rparr>" uuid0 UNICAST
      group_exists all_ok bus0]
  by (simp add: getStreamKey_def getGroupKey_def bus0_fields no_options_def)

subsection \<open>Publish\<close>

text \<open>
  C4, as the code has it. In every envelope built by \<^verbatim>\<open>emit\<close>, a target that is present
  and not the empty string comes with mode UNICAST; and, except for a message that asks
  for mode UNICAST without naming a target, an envelope of mode UNICAST carries a
  target that is not the empty string.
\<close>

theorem target_set_forces_unicast:
  "(\<forall>t. target (emit_payload bus now ev message) = Some t \<and> t \<noteq> [] \<longrightarrow>
        mode (emit_payload bus now ev message) = UNICAST)
   \<and> (\<not> (m_mode message = Some UNICAST \<and> \<not> truthy (m_target message))
        \<and> mode (emit_payload bus now ev message) = UNICAST \<longrightarrow>
        (\<exists>t. target (emit_payload bus now ev message) = Some t \<and> t \<noteq> []))"
  by (auto simp: emit_payload_def emit_mode_def truthy_def nullish_def split: option.splits)

theorem target_set_forces_unicast_witness:
  "\<not> (m_mode unicast_to_self = Some UNICAST \<and> \<not> truthy (m_target unicast_to_self))
   \<and> mode (emit_payload bus0 5 ''e'' unicast_to_self) = UNICAST
   \<and> target (emit_payload bus0 5 ''e'' unicast_to_self) = Some uuid0
   \<and> uuid0 \<noteq> []
   \<and> \<not> (m_mode to_ab = Some UNICAST \<and> \<not> truthy (m_target to_ab))
   \<and> mode (emit_payload bus0 5 ''e'' to_ab) = UNICAST
   \<and> target (emit_payload bus0 5 ''e'' to_ab) = Some ''ab''"
  using target_set_forces_unicast [of bus0 5 "''e''" unicast_to_self]
    target_set_forces_unicast [of bus0 5 "''e''" to_ab]
  by (simp add: emit_payload_def emit_mode_def to_ab_def unicast_to_self_def truthy_def
      uuid0_def)

text \<open>
  C4, as the claim states it, fails on the very input it names: the envelope built for a
  message with mode UNICAST and no target has mode UNICAST and no target.
\<close>

theorem unicast_without_target_counterexample:
  "m_mode unicast_no_target = Some UNICAST
   \<and> m_target unicast_no_target = None
   \<and> mode (emit_payload bus0 5 ''e'' unicast_no_target) = UNICAST
   \<and> target (emit_payload bus0 5 ''e'' unicast_no_target) = None"
  by (simp add: emit_payload_def emit_mode_def truthy_def nullish_def unicast_no_target_def)

text \<open>
  C6, as the code has it. When the message names a target (a non-empty string), the
  envelope has mode UNICAST and the record goes to the key made of the prefix,
  \<^verbatim>\<open>unicast:\<close> and the target. Otherwise the mode is the message's mode, BROADCAST when
  it has none, and, when that mode is BROADCAST or ANYCAST, the record goes to the key
  of the stream of that mode. The envelope carries the instance id as source and the
  current time as timestamp; \<^verbatim>\<open>emit\<close> sends one XADD of the encoded envelope and
  returns what the store replies, the record id.
\<close>

theorem emit_routing:
  "(\<forall>t. m_target message = Some t \<and> t \<noteq> [] \<longrightarrow>
        mode (emit_payload bus now ev message) = UNICAST
        \<and> emit_streamKey bus message = keyPrefix bus @ ''unicast:'' @ t)
   \<and> (m_target message = None \<or> m_target message = Some [] \<longrightarrow>
        mode (emit_payload bus now ev message)
          = (case m_mode message of None \<Rightarrow> BROADCAST | Some m \<Rightarrow> m)
        \<and> (mode (emit_payload bus now ev message) \<noteq> UNICAST \<longrightarrow>
             emit_streamKey bus message
               = getStreamKey (streams bus (mode (emit_payload bus now ev message)))))
   \<and> source (emit_payload bus now ev message) = instanceId bus
   \<and> timestamp (emit_payload bus now ev message) = now
   \<and> emit stringify now added bus ev message
       = ([XADD (emit_streamKey bus message) ''*'' ''message''
             (stringify (emit_payload bus now ev message))], added)"
  by (auto simp: emit_def emit_payload_def emit_streamKey_def emit_mode_def truthy_def
      nullish_def js_string_def split: option.splits)

theorem emit_routing_witness:
  "m_target to_ab = Some ''ab''
   \<and> emit_streamKey bus0 to_ab = ''eventbus:default:unicast:ab''
   \<and> mode (emit_payload bus0 5 ''e'' to_ab) = UNICAST
   \<and> m_target plain_message = None
   \<and> mode (emit_payload bus0 5 ''e'' plain_message) = BROADCAST
   \<and> emit_streamKey bus0 plain_message = ''eventbus:default:broadcast''
   \<and> source (emit_payload bus0 5 ''e'' plain_message) = uuid0
   \<and> snd (emit event 5 (Inr ''1-1'') bus0 ''e'' plain_message) = Inr ''1-1''"
  using emit_routing [of to_ab bus0 5 "''e''" event "Inr ''1-1''"]
    emit_routing [of plain_message bus0 5 "''e''" event "Inr ''1-1''"]
  by (simp add: to_ab_def plain_message_def bus0_fields getStreamKey_def)

text \<open>
  C6, as the claim states it, fails: a message with mode UNICAST and no target is in
  the claim's second case, and its record goes to the key that ends in
  \<^verbatim>\<open>unicast:undefined\<close>, which is not the key of the stream of its mode.
\<close>

theorem unicast_without_target_key_counterexample:
  "m_target unicast_no_target = None
   \<and> mode (emit_payload bus0 5 ''e'' unicast_no_target) = UNICAST
   \<and> emit_streamKey bus0 unicast_no_target = ''eventbus:default:unicast:undefined''
   \<and> getStreamKey (streams bus0 UNICAST) = ''eventbus:default:unicast:'' @ uuid0
   \<and> emit_streamKey bus0 unicast_no_target
       \<noteq> getStreamKey (streams bus0 (mode (emit_payload bus0 5 ''e'' unicast_no_target)))"
  by (simp add: emit_payload_def emit_streamKey_def emit_mode_def truthy_def nullish_def
      js_string_def unicast_no_target_def bus0_fields getStreamKey_def uuid0_def)

subsection \<open>Maintenance\<close>

text \<open>
  C5. A consumer is deleted exactly when its idle time exceeds \<^verbatim>\<open>streamTTL\<close>. The
  code compares the number of milliseconds that the store reports with the number of
  seconds of \<^verbatim>\<open>streamTTL\<close>: with the default of 3600 seconds, a consumer that has been
  idle for 4000 milliseconds is deleted.
\<close>

theorem prune_after_four_seconds:
  "opt_streamTTL (options bus0) = 3600
   \<and> js_index consumer_idle_4s 5 = Some (Num 4000)
   \<and> prune_consumers bus0 (streams bus0 ANYCAST) [consumer_idle_4s]
     = [XGROUP_DELCONSUMER (getStreamKey (streams bus0 ANYCAST))
          (getGroupKey (streams bus0 ANYCAST)) (Some (Str ''c1''))]"
  by (simp add: prune_consumers_def consumer_idle_4s_def js_index_def idle_gt_def bus0_fields)

subsection \<open>Constructor and subscriber table\<close>

text \<open>
  C9. For every option set, the resolved \<^verbatim>\<open>streamTTL\<close> is the maximum of the given
  value and 300, where a missing value counts as 3600; and a missing \<^verbatim>\<open>name\<close>,
  \<^verbatim>\<open>messageRetention\<close>, \<^verbatim>\<open>onlyNew\<close>, \<^verbatim>\<open>debug\<close> or \<^verbatim>\<open>maxMessageCount\<close> resolves to
  \<^verbatim>\<open>"default"\<close>, 300000, false, false and 5000.
\<close>

theorem constructor_defaults:
  "opt_streamTTL (options (new_EventBus given uuid))
     = max (case streamTTL given of None \<Rightarrow> 3600 | Some v \<Rightarrow> v) 300
   \<and> (name given = None \<longrightarrow> opt_name (options (new_EventBus given uuid)) = ''default'')
   \<and> (messageRetention given = None \<longrightarrow>
        opt_messageRetention (options (new_EventBus given uuid)) = 300000)
   \<and> (onlyNew given = None \<longrightarrow> opt_onlyNew (options (new_EventBus given uuid)) = False)
   \<and> (debug given = None \<longrightarrow> opt_debug (options (new_EventBus given uuid)) = False)
   \<and> (maxMessageCount given = None \<longrightarrow>
        opt_maxMessageCount (options (new_EventBus given uuid)) = 5000)"
  by (simp add: new_EventBus_def resolve_options_def nullish_def or_string_def
      or_number_def Let_def split: option.splits)

theorem constructor_defaults_witness:
  "opt_streamTTL (options (new_EventBus no_options ''ab12'')) = 3600
   \<and> opt_streamTTL (options (new_EventBus (no_options\<lparr>streamTTL := Some 10\<rparr>) ''ab12'')) = 300
   \<and> opt_name (options (new_EventBus no_options ''ab12'')) = ''default''
   \<and> opt_messageRetention (options (new_EventBus no_options ''ab12'')) = 300000
   \<and> opt_onlyNew (options (new_EventBus no_options ''ab12'')) = False
   \<and> opt_debug (options (new_EventBus no_options ''ab12'')) = False
   \<and> opt_maxMessageCount (options (new_EventBus no_options ''ab12'')) = 5000"
  using constructor_defaults [of no_options "''ab12''"]
    constructor_defaults [of "no_options\<lparr>streamTTL := Some 10\<rparr>" "''ab12''"]
  by (simp add: no_options_def)

text \<open>
  C10. No topic of the subscriber table has an empty handler set: starting from the
  table of a new instance, every sequence of calls of \<^verbatim>\<open>on\<close>, \<^verbatim>\<open>off\<close> and \<^verbatim>\<open>once\<close>,
  and of deliveries in which the closures of \<^verbatim>\<open>once\<close> unsubscribe themselves, leaves a
  table in which no topic is mapped to the empty set.
\<close>

theorem no_empty_handler_set:
  "table_ok (handlers (do_calls run cs (new_EventBus given uuid)))"
  by (rule table_ok_do_calls) (simp add: handlers_new_EventBus table_ok_def)

theorem no_empty_handler_set_witness:
  "handlers (do_calls all_return
               [On ''e'' (Fn 0), Once ''e'' 1, Off ''e'' (Fn 0), Once ''f'' 2, Deliver envelope_a]
               (new_EventBus no_options uuid0)) ''f'' \<noteq> Some []
   \<and> handlers (do_calls all_return
               [On ''e'' (Fn 0), Once ''e'' 1, Off ''e'' (Fn 0), Once ''f'' 2, Deliver envelope_a]
               (new_EventBus no_options uuid0)) ''f'' = Some [OnceWrapper 1 ''f'' 2]
   \<and> handlers (do_calls all_return
               [On ''e'' (Fn 0), Once ''e'' 1, Off ''e'' (Fn 0), Once ''f'' 2, Deliver envelope_a]
               (new_EventBus no_options uuid0)) ''e'' = None"
proof -
  have "\<forall>ty. handlers (do_calls all_return
               [On ''e'' (Fn 0), Once ''e'' 1, Off ''e'' (Fn 0), Once ''f'' 2, Deliver envelope_a]
               (new_EventBus no_options uuid0)) ty \<noteq> Some []"
    using no_empty_handler_set [of all_return
        "[On ''e'' (Fn 0), Once ''e'' 1, Off ''e'' (Fn 0), Once ''f'' 2, Deliver envelope_a]"
        no_options uuid0]
    unfolding table_ok_def .
  then have nonempty: "handlers (do_calls all_return
               [On ''e'' (Fn 0), Once ''e'' 1, Off ''e'' (Fn 0), Once ''f'' 2, Deliver envelope_a]
               (new_EventBus no_options uuid0)) ''f'' \<noteq> Some []"
    by (rule spec)
  have evaluated: "handlers (do_calls all_return
               [On ''e'' (Fn 0), Once ''e'' 1, Off ''e'' (Fn 0), Once ''f'' 2, Deliver envelope_a]
               (new_EventBus no_options uuid0)) ''f'' = Some [OnceWrapper 1 ''f'' 2]
     \<and> handlers (do_calls all_return
               [On ''e'' (Fn 0), Once ''e'' 1, Off ''e'' (Fn 0), Once ''f'' 2, Deliver envelope_a]
               (new_EventBus no_options uuid0)) ''e'' = None"
    by (simp add: handlers_new_EventBus closures_new_EventBus on_def off_def once_def
        set_add_def set_delete_def handleMessage_def envelope_a_def all_return_def Let_def)
  show ?thesis
    using nonempty evaluated by simp
qed

end
